theory Spec2Isabelle
  imports Complex_Main
begin

section \<open>JavaScript values read by the handlers of server.js\<close>

text \<open>
  Numbers. The handlers compare record ids with the result of \<open>Number.parseInt\<close> and test
  body fields for truthiness. A number is \<open>NaN\<close>, an infinity, or a finite value, held here
  as a rational (every finite double is one). The two zeros of JavaScript are one value
  here: \<open>===\<close> and truthiness do not tell them apart.
\<close>

datatype jsnum = NaN | PosInf | NegInf | Num rat

text \<open>\<open>a === b\<close> on two numbers: false as soon as one side is \<open>NaN\<close>.\<close>

fun strict_eq :: "jsnum \<Rightarrow> jsnum \<Rightarrow> bool" where
  "strict_eq NaN _ = False"
| "strict_eq _ NaN = False"
| "strict_eq a b = (a = b)"

text \<open>
  The values \<open>express.json()\<close> can put into a field of \<open>req.body\<close>; \<open>JUndefined\<close> is what
  the destructuring \<open>const { name, email } = req.body\<close> yields for a field that is absent.
\<close>

datatype jsval =
    JUndefined
  | JNull
  | JBool bool
  | JNum jsnum
  | JStr string
  | JArr "jsval list"
  | JObj "(string \<times> jsval) list"

text \<open>ToBoolean, as used by \<open>!name\<close>, \<open>if (name)\<close>.\<close>

fun truthy :: "jsval \<Rightarrow> bool" where
  "truthy JUndefined = False"
| "truthy JNull = False"
| "truthy (JBool b) = b"
| "truthy (JNum n) = (n \<noteq> NaN \<and> n \<noteq> Num 0)"
| "truthy (JStr s) = (s \<noteq> [])"
| "truthy (JArr _) = True"
| "truthy (JObj _) = True"

section \<open>Number.parseInt with no radix argument\<close>

text \<open>
  \<open>Number.parseInt(req.params.id)\<close>: leading white space is dropped, one sign is read, the
  prefix \<open>0x\<close> or \<open>0X\<close> switches to radix 16, and the longest run of digits of the radix
  is the value; no digit gives \<open>NaN\<close>. Strings are lists of characters with codes up to
  255, so the white space is TAB, LF, VT, FF, CR, SP and NBSP. The value is the
  mathematical integer; JavaScript rounds it to a double, which changes nothing up to
  \<open>2 ^ 53\<close>, far above any id the service assigns (a length plus one, and an array
  holds fewer than \<open>2 ^ 32\<close> elements). Where a theorem names the number a string
  parses to, it does so up to that bound.
\<close>

definition is_white_space :: "char \<Rightarrow> bool" where
  "is_white_space c = (of_char c \<in> {9, 10, 11, 12, 13, 32, 160 :: nat})"

definition digit_value :: "char \<Rightarrow> nat option" where
  "digit_value c =
     (let n = (of_char c :: nat) in
      if 48 \<le> n \<and> n \<le> 57 then Some (n - 48)
      else if 97 \<le> n \<and> n \<le> 122 then Some (n - 97 + 10)
      else if 65 \<le> n \<and> n \<le> 90 then Some (n - 65 + 10)
      else None)"

definition is_radix_digit :: "nat \<Rightarrow> char \<Rightarrow> bool" where
  "is_radix_digit R c = (case digit_value c of None \<Rightarrow> False | Some d \<Rightarrow> d < R)"

text \<open>The integer written by a run of digits, most significant first.\<close>

fun math_int :: "nat \<Rightarrow> nat \<Rightarrow> string \<Rightarrow> nat" where
  "math_int R acc [] = acc"
| "math_int R acc (c # cs) =
     math_int R (acc * R + (case digit_value c of None \<Rightarrow> 0 | Some d \<Rightarrow> d)) cs"

text \<open>The two first steps: trimming the start, and dropping one leading sign.\<close>

definition trim_start :: "string \<Rightarrow> string" where
  "trim_start inputString = dropWhile is_white_space inputString"

definition strip_sign :: "string \<Rightarrow> string" where
  "strip_sign S = (if S \<noteq> [] \<and> (hd S = CHR ''+'' \<or> hd S = CHR ''-'') then tl S else S)"

definition parseInt :: "string \<Rightarrow> jsnum" where
  "parseInt inputString =
     (let S = trim_start inputString;
          sign = (if S \<noteq> [] \<and> hd S = CHR ''-'' then - 1 else (1 :: int));
          S = strip_sign S;
          hex = (take 2 S = ''0x'' \<or> take 2 S = ''0X'');
          R = (if hex then 16 else 10);
          S = (if hex then drop 2 S else S);
          Z = takeWhile (is_radix_digit R) S
      in if Z = [] then NaN else Num (of_int (sign * int (math_int R 0 Z))))"

text \<open>
  The strings in which \<open>parseInt\<close> finds no integer: after the white space and the sign
  nothing is left or a character that is not a decimal digit comes first, or the prefix
  \<open>0x\<close> or \<open>0X\<close> comes first and no hexadecimal digit follows it.
\<close>

definition no_leading_integer :: "string \<Rightarrow> bool" where
  "no_leading_integer s =
     (let S = strip_sign (trim_start s) in
      if take 2 S = ''0x'' \<or> take 2 S = ''0X''
      then (case drop 2 S of [] \<Rightarrow> True | c # _ \<Rightarrow> \<not> is_radix_digit 16 c)
      else (case S of [] \<Rightarrow> True | c # _ \<Rightarrow> \<not> is_radix_digit 10 c))"

section \<open>The user collection and the responses\<close>

record user =
  id_u :: jsnum
  name :: jsval
  email :: jsval

text \<open>
  The part of \<open>req.body\<close> that the handlers read; \<open>req.body\<close> is the object that
  \<open>express.json()\<close> leaves there (an empty one for a request without a JSON body).
\<close>

record body =
  body_name :: jsval
  body_email :: jsval

text \<open>The JSON envelope a user handler sends, with the HTTP status.\<close>

record response =
  status :: nat
  success :: bool
  message :: "string option"
  data :: "user option"

definition users_seed :: "user list" where
  "users_seed =
     [\<lparr>id_u = Num 1, name = JStr ''John Doe'', email = JStr ''john@example.com''\<rparr>,
      \<lparr>id_u = Num 2, name = JStr ''Jane Smith'', email = JStr ''jane@example.com''\<rparr>,
      \<lparr>id_u = Num 3, name = JStr ''Bob Johnson'', email = JStr ''bob@example.com''\<rparr>]"

definition not_found :: response where
  "not_found = \<lparr>status = 404, success = False, message = Some ''User not found'', data = None\<rparr>"

text \<open>\<open>Array.prototype.findIndex\<close>; \<open>None\<close> stands for the result \<open>-1\<close>.\<close>

fun findIndex :: "('a \<Rightarrow> bool) \<Rightarrow> 'a list \<Rightarrow> nat option" where
  "findIndex P [] = None"
| "findIndex P (x # xs) = (if P x then Some 0 else map_option Suc (findIndex P xs))"

text \<open>\<open>users.splice(i, 1)\<close>: the array without position \<open>i\<close>.\<close>

definition splice1 :: "nat \<Rightarrow> 'a list \<Rightarrow> 'a list" where
  "splice1 i xs = take i xs @ drop (Suc i) xs"

section \<open>The handlers\<close>

text \<open>GET /api/users/:id\<close>

definition get_user :: "string \<Rightarrow> user list \<Rightarrow> response" where
  "get_user id_param users =
     (let id = parseInt id_param in
      case find (\<lambda>u. strict_eq (id_u u) id) users of
        None \<Rightarrow> not_found
      | Some u \<Rightarrow> \<lparr>status = 200, success = True, message = None, data = Some u\<rparr>)"

text \<open>POST /api/users\<close>

definition create_user :: "body \<Rightarrow> user list \<Rightarrow> user list \<times> response" where
  "create_user b users =
     (if \<not> truthy (body_name b) \<or> \<not> truthy (body_email b) then
        (users, \<lparr>status = 400, success = False,
                 message = Some ''Name and email are required'', data = None\<rparr>)
      else
        let newUser = \<lparr>id_u = Num (of_nat (length users) + 1),
                       name = body_name b, email = body_email b\<rparr>
        in (users @ [newUser],
            \<lparr>status = 201, success = True,
             message = Some ''User created successfully'', data = Some newUser\<rparr>))"

text \<open>PUT /api/users/:id\<close>

definition update_fields :: "body \<Rightarrow> user \<Rightarrow> user" where
  "update_fields b u =
     (let u = (if truthy (body_name b) then u\<lparr>name := body_name b\<rparr> else u);
          u = (if truthy (body_email b) then u\<lparr>email := body_email b\<rparr> else u)
      in u)"

definition update_user :: "string \<Rightarrow> body \<Rightarrow> user list \<Rightarrow> user list \<times> response" where
  "update_user id_param b users =
     (let id = parseInt id_param in
      case findIndex (\<lambda>u. strict_eq (id_u u) id) users of
        None \<Rightarrow> (users, not_found)
      | Some userIndex \<Rightarrow>
          let users = users[userIndex := update_fields b (users ! userIndex)]
          in (users,
              \<lparr>status = 200, success = True,
               message = Some ''User updated successfully'',
               data = Some (users ! userIndex)\<rparr>))"

text \<open>DELETE /api/users/:id\<close>

definition delete_user :: "string \<Rightarrow> user list \<Rightarrow> user list \<times> response" where
  "delete_user id_param users =
     (let id = parseInt id_param in
      case findIndex (\<lambda>u. strict_eq (id_u u) id) users of
        None \<Rightarrow> (users, not_found)
      | Some userIndex \<Rightarrow>
          (splice1 userIndex users,
           \<lparr>status = 200, success = True,
            message = Some ''User deleted successfully'',
            data = Some (users ! userIndex)\<rparr>))"

text \<open>A request to the user routes, and the service running a sequence of them.\<close>

datatype request =
    Get string
  | Post body
  | Put string body
  | Delete string

fun handle :: "request \<Rightarrow> user list \<Rightarrow> user list \<times> response" where
  "handle (Get i) users = (users, get_user i users)"
| "handle (Post b) users = create_user b users"
| "handle (Put i b) users = update_user i b users"
| "handle (Delete i) users = delete_user i users"

fun run :: "request list \<Rightarrow> user list \<Rightarrow> user list" where
  "run [] users = users"
| "run (r # rs) users = run rs (fst (handle r users))"

section \<open>The upload route\<close>

text \<open>The file part of a multipart request, as multer hands it to \<open>fileFilter\<close>.\<close>

record file_part =
  originalname :: string
  mimetype :: string
  size_f :: nat

text \<open>\<open>req.file\<close> after a successful upload, echoed in the response.\<close>

record file_info =
  file_filename :: string
  file_mimetype :: string
  file_size :: nat
  file_path :: string

record upload_response =
  up_status :: nat
  up_success :: bool
  up_message :: string
  up_file :: "file_info option"

text \<open>The upload directory: the files it holds, by path, with their sizes.\<close>

type_synonym disk = "string \<rightharpoonup> nat"

datatype upload_error = MulterError string | Error string

definition allowedTypes :: "string list" where
  "allowedTypes = [''image/jpeg'', ''image/png'', ''image/gif'']"

text \<open>The \<open>fileFilter\<close> option: \<open>cb(null, true)\<close> is \<open>Inr True\<close>, \<open>cb(new Error(...), false)\<close> is \<open>Inl\<close>.\<close>

definition fileFilter :: "file_part \<Rightarrow> upload_error + bool" where
  "fileFilter file =
     (if mimetype file \<in> set allowedTypes then Inr True
      else Inl (Error ''Invalid file type. Only JPEG, PNG, GIF are allowed.''))"

definition fileSize :: nat where
  "fileSize = 5 * 1024 * 1024"

text \<open>
  The \<open>filename\<close> option of the disk storage; \<open>now\<close> is the decimal text of \<open>Date.now()\<close>.
\<close>

definition storage_filename :: "string \<Rightarrow> file_part \<Rightarrow> string" where
  "storage_filename now file = now @ ''-'' @ originalname file"

text \<open>
  Modelled from the spec: the middleware \<open>upload.single("image")\<close> of the multer package,
  which is not among the sources. For a request with at most one file part, in the field
  \<open>image\<close>: the filter runs before any data is accepted; an error from the filter aborts
  the request with that error and stores nothing; a file over the size limit is rejected
  with multer's own error and leaves no file behind; otherwise the file is written to the
  upload directory under the storage's file name and becomes \<open>req.file\<close>. With no file
  part \<open>req.file\<close> stays undefined.
\<close>

definition upload_single ::
  "string \<Rightarrow> string \<Rightarrow> file_part option \<Rightarrow> disk \<Rightarrow> upload_error + (disk \<times> file_info option)" where
  "upload_single uploadsDir now part d =
     (case part of
        None \<Rightarrow> Inr (d, None)
      | Some file \<Rightarrow>
          (case fileFilter file of
             Inl err \<Rightarrow> Inl err
           | Inr False \<Rightarrow> Inr (d, None)
           | Inr True \<Rightarrow>
               if size_f file > fileSize then Inl (MulterError ''File too large'')
               else
                 let fname = storage_filename now file;
                     path = uploadsDir @ ''/'' @ fname
                 in Inr (d(path \<mapsto> size_f file),
                         Some \<lparr>file_filename = fname, file_mimetype = mimetype file,
                               file_size = size_f file, file_path = path\<rparr>)))"

text \<open>The route's handler, reached when the middleware passes the request on.\<close>

definition upload_handler :: "file_info option \<Rightarrow> upload_response" where
  "upload_handler file =
     (case file of
        None \<Rightarrow> \<lparr>up_status = 400, up_success = False,
                  up_message = ''No file uploaded or invalid file type.'', up_file = None\<rparr>
      | Some f \<Rightarrow> \<lparr>up_status = 200, up_success = True,
                    up_message = ''Image uploaded and health checked successfully!'',
                    up_file = Some f\<rparr>)"

text \<open>The route's error handler: both branches answer 400 with the error's message.\<close>

definition upload_error_handler :: "upload_error \<Rightarrow> upload_response" where
  "upload_error_handler error =
     (case error of
        MulterError m \<Rightarrow> \<lparr>up_status = 400, up_success = False, up_message = m, up_file = None\<rparr>
      | Error m \<Rightarrow> \<lparr>up_status = 400, up_success = False, up_message = m, up_file = None\<rparr>)"

text \<open>POST /api/upload\<close>

definition upload_image ::
  "string \<Rightarrow> string \<Rightarrow> file_part option \<Rightarrow> disk \<Rightarrow> disk \<times> upload_response" where
  "upload_image uploadsDir now part d =
     (case upload_single uploadsDir now part d of
        Inl err \<Rightarrow> (d, upload_error_handler err)
      | Inr (d', file) \<Rightarrow> (d', upload_handler file))"

section \<open>Facts about the array operations\<close>

lemma findIndex_Some_iff:
  "findIndex P xs = Some i \<longleftrightarrow> i < length xs \<and> P (xs ! i) \<and> (\<forall>j<i. \<not> P (xs ! j))"
proof (induction xs arbitrary: i)
  case Nil
  then show ?case by simp
next
  case (Cons x xs)
  show ?case
  proof (cases "P x")
    case True
    then show ?thesis by (cases i) auto
  next
    case False
    then show ?thesis
      by (cases i) (auto simp add: Cons.IH less_Suc_eq_0_disj)
  qed
qed

lemma findIndex_None_iff: "findIndex P xs = None \<longleftrightarrow> (\<forall>x\<in>set xs. \<not> P x)"
  by (induction xs) auto

lemma find_findIndex: "find P xs = map_option (\<lambda>i. xs ! i) (findIndex P xs)"
  by (induction xs) (auto simp add: option.map_comp comp_def)

lemma findIndex_append:
  "\<forall>x\<in>set pre. \<not> P x \<Longrightarrow> P r \<Longrightarrow> findIndex P (pre @ r # post) = Some (length pre)"
  by (induction pre) auto

lemma strict_eq_same: "strict_eq a c \<Longrightarrow> strict_eq b c \<Longrightarrow> a = b"
  by (cases a; cases b; cases c) auto

lemma strict_eq_NaN: "\<not> strict_eq a NaN"
  by (cases a) simp_all

lemma parseInt_1: "parseInt ''1'' = Num 1"
  by code_simp

lemma parseInt_2: "parseInt ''2'' = Num 2"
  by code_simp

lemma parseInt_3: "parseInt ''3'' = Num 3"
  by code_simp

text \<open>The seed collection after DELETE /api/users/1 and one create: two records with id 3.\<close>

lemma run_delete_create:
  "run [Delete ''1'', Post \<lparr>body_name = JStr ''Ann'', body_email = JStr ''ann@x.com''\<rparr>] users_seed =
     [\<lparr>id_u = Num 2, name = JStr ''Jane Smith'', email = JStr ''jane@example.com''\<rparr>,
      \<lparr>id_u = Num 3, name = JStr ''Bob Johnson'', email = JStr ''bob@example.com''\<rparr>,
      \<lparr>id_u = Num 3, name = JStr ''Ann'', email = JStr ''ann@x.com''\<rparr>]"
  by (simp add: users_seed_def delete_user_def create_user_def parseInt_1 splice1_def Let_def)

section \<open>Facts about parseInt\<close>

lemma is_radix_digit_10:
  "is_radix_digit 10 c \<longleftrightarrow> 48 \<le> (of_char c :: nat) \<and> (of_char c :: nat) \<le> 57"
  by (auto simp add: is_radix_digit_def digit_value_def Let_def)




lemma takeWhile_Nil_case:
  "takeWhile P xs = [] \<longleftrightarrow> (case xs of [] \<Rightarrow> True | c # _ \<Rightarrow> \<not> P c)"
  by (cases xs) auto

lemma parseInt_NaN_iff: "parseInt s = NaN \<longleftrightarrow> no_leading_integer s"
  by (simp add: parseInt_def no_leading_integer_def Let_def takeWhile_Nil_case)

lemma no_digit_at_all:
  assumes "\<forall>c\<in>set s. \<not> is_radix_digit 10 c"
  shows "no_leading_integer s"
proof -
  let ?S = "strip_sign (trim_start s)"
  have a: "set (trim_start s) \<subseteq> set s"
    by (auto simp add: trim_start_def dest: set_dropWhileD)
  have b: "set (strip_sign S) \<subseteq> set S" for S
    by (cases S) (auto simp add: strip_sign_def)
  from a b [of "trim_start s"] have sub: "set ?S \<subseteq> set s"
    by blast
  have z: "is_radix_digit 10 CHR ''0''"
    by (simp add: is_radix_digit_10)
  have "CHR ''0'' \<notin> set ?S"
    using assms sub z by blast
  then have nx: "take 2 ?S \<noteq> ''0x'' \<and> take 2 ?S \<noteq> ''0X''"
    by (cases ?S) auto
  have "case ?S of [] \<Rightarrow> True | c # _ \<Rightarrow> \<not> is_radix_digit 10 c"
    using assms sub by (auto split: list.splits)
  with nx show ?thesis
    by (simp add: no_leading_integer_def Let_def)
qed

lemma nli_abc: "no_leading_integer ''abc''"
  by code_simp

lemma nli_0xg: "no_leading_integer ''0xg''"
  by code_simp

lemma nli_0x: "no_leading_integer ''0x''"
  by code_simp

lemma nli_m0Xz: "no_leading_integer ''-0Xz''"
  by code_simp

lemma nli_2abc: "\<not> no_leading_integer ''2abc''"
  by code_simp



section \<open>Creating a user\<close>

text \<open>
  C1. Whatever the collection holds, a POST /api/users whose body has a truthy name and a
  truthy email answers 201, appends one record whose id is the size of the collection
  before the insert plus one, and returns that record as the data of the response.
\<close>

theorem create_user_created:
  assumes "truthy (body_name b)" and "truthy (body_email b)"
  shows "\<exists>newUser.
           create_user b users =
             (users @ [newUser],
              \<lparr>status = 201, success = True,
               message = Some ''User created successfully'', data = Some newUser\<rparr>)
           \<and> id_u newUser = Num (of_nat (length users) + 1)
           \<and> name newUser = body_name b \<and> email newUser = body_email b"
  using assms by (simp add: create_user_def Let_def)

theorem create_user_created_witness:
  "truthy (JStr ''Ann'') \<and> truthy (JStr ''ann@x.com'')
   \<and> create_user \<lparr>body_name = JStr ''Ann'', body_email = JStr ''ann@x.com''\<rparr> users_seed =
       (users_seed @ [\<lparr>id_u = Num 4, name = JStr ''Ann'', email = JStr ''ann@x.com''\<rparr>],
        \<lparr>status = 201, success = True, message = Some ''User created successfully'',
         data = Some \<lparr>id_u = Num 4, name = JStr ''Ann'', email = JStr ''ann@x.com''\<rparr>\<rparr>)"
  using create_user_created
    [of "\<lparr>body_name = JStr ''Ann'', body_email = JStr ''ann@x.com''\<rparr>" users_seed]
  by (auto simp add: users_seed_def)

text \<open>
  C6. A POST /api/users in which name or email is absent or falsy answers 400 with
  \<open>{success: false, message: "Name and email are required"}\<close> and leaves the collection
  exactly as it was.
\<close>

theorem create_user_rejected:
  assumes "\<not> truthy (body_name b) \<or> \<not> truthy (body_email b)"
  shows "create_user b users =
           (users, \<lparr>status = 400, success = False,
                    message = Some ''Name and email are required'', data = None\<rparr>)"
  using assms by (auto simp add: create_user_def)

theorem create_user_rejected_witness:
  "truthy (JStr ''Bo'') \<and> \<not> truthy JUndefined
   \<and> create_user \<lparr>body_name = JStr ''Bo'', body_email = JUndefined\<rparr> users_seed =
       (users_seed, \<lparr>status = 400, success = False,
                     message = Some ''Name and email are required'', data = None\<rparr>)"
  using create_user_rejected [of "\<lparr>body_name = JStr ''Bo'', body_email = JUndefined\<rparr>" users_seed]
  by simp

section \<open>Updating a user\<close>

text \<open>
  When the record at position \<open>i\<close> is the one a PUT /api/users/:id selects (the first
  whose id equals the parsed id), a body with a truthy name and no email (or a falsy one)
  overwrites the name of that record and keeps its email, and a body with a truthy email
  and no name overwrites the email and keeps the name; nothing else in the collection
  changes and the response carries the updated record.
\<close>

lemma update_user_partial:
  assumes "i < length users"
    and "strict_eq (id_u (users ! i)) (parseInt s)"
    and "\<forall>j<i. \<not> strict_eq (id_u (users ! j)) (parseInt s)"
  shows "(truthy n \<and> \<not> truthy e \<longrightarrow>
            update_user s \<lparr>body_name = n, body_email = e\<rparr> users =
              (users[i := (users ! i)\<lparr>name := n\<rparr>],
               \<lparr>status = 200, success = True, message = Some ''User updated successfully'',
                data = Some ((users ! i)\<lparr>name := n\<rparr>)\<rparr>))
       \<and> (\<not> truthy n \<and> truthy e \<longrightarrow>
            update_user s \<lparr>body_name = n, body_email = e\<rparr> users =
              (users[i := (users ! i)\<lparr>email := e\<rparr>],
               \<lparr>status = 200, success = True, message = Some ''User updated successfully'',
                data = Some ((users ! i)\<lparr>email := e\<rparr>)\<rparr>))"
proof -
  have "findIndex (\<lambda>u. strict_eq (id_u u) (parseInt s)) users = Some i"
    using assms by (simp add: findIndex_Some_iff)
  then show ?thesis
    using assms(1) by (simp add: update_user_def update_fields_def Let_def)
qed

lemma update_user_partial_seed:
  "update_user ''2'' \<lparr>body_name = JStr ''Jen'', body_email = JUndefined\<rparr> users_seed =
     ([\<lparr>id_u = Num 1, name = JStr ''John Doe'', email = JStr ''john@example.com''\<rparr>,
       \<lparr>id_u = Num 2, name = JStr ''Jen'', email = JStr ''jane@example.com''\<rparr>,
       \<lparr>id_u = Num 3, name = JStr ''Bob Johnson'', email = JStr ''bob@example.com''\<rparr>],
      \<lparr>status = 200, success = True, message = Some ''User updated successfully'',
       data = Some \<lparr>id_u = Num 2, name = JStr ''Jen'', email = JStr ''jane@example.com''\<rparr>\<rparr>)
   \<and> update_user ''2'' \<lparr>body_name = JUndefined, body_email = JStr ''j@x.org''\<rparr> users_seed =
     ([\<lparr>id_u = Num 1, name = JStr ''John Doe'', email = JStr ''john@example.com''\<rparr>,
       \<lparr>id_u = Num 2, name = JStr ''Jane Smith'', email = JStr ''j@x.org''\<rparr>,
       \<lparr>id_u = Num 3, name = JStr ''Bob Johnson'', email = JStr ''bob@example.com''\<rparr>],
      \<lparr>status = 200, success = True, message = Some ''User updated successfully'',
       data = Some \<lparr>id_u = Num 2, name = JStr ''Jane Smith'', email = JStr ''j@x.org''\<rparr>\<rparr>)"
  using update_user_partial [of 1 users_seed "''2''" "JStr ''Jen''" JUndefined]
    update_user_partial [of 1 users_seed "''2''" JUndefined "JStr ''j@x.org''"]
  by (simp add: users_seed_def parseInt_2)

text \<open>
  C3. For every record of the collection, a PUT /api/users/:id with its id and a body that
  supplies only a name should overwrite the name of that record, keep its email and return
  it. On the collection reached from the seeds by DELETE /api/users/1 and one create, the
  records of Bob and of Ann both have id 3: PUT /api/users/3 with only a name rewrites and
  returns the record of Bob, the first of the two, and the record of Ann keeps its name.
\<close>

theorem put_rewrites_first_duplicate:
  "update_user ''3'' \<lparr>body_name = JStr ''Zed'', body_email = JUndefined\<rparr>
     (run [Delete ''1'', Post \<lparr>body_name = JStr ''Ann'', body_email = JStr ''ann@x.com''\<rparr>] users_seed) =
     ([\<lparr>id_u = Num 2, name = JStr ''Jane Smith'', email = JStr ''jane@example.com''\<rparr>,
       \<lparr>id_u = Num 3, name = JStr ''Zed'', email = JStr ''bob@example.com''\<rparr>,
       \<lparr>id_u = Num 3, name = JStr ''Ann'', email = JStr ''ann@x.com''\<rparr>],
      \<lparr>status = 200, success = True, message = Some ''User updated successfully'',
       data = Some \<lparr>id_u = Num 3, name = JStr ''Zed'', email = JStr ''bob@example.com''\<rparr>\<rparr>)"
  unfolding run_delete_create
  by (simp add: update_user_def update_fields_def parseInt_3 Let_def)

text \<open>
  C10. After a successful PUT /api/users/:id the collection has the length it had, the
  targeted record has the id it had, and every other record is exactly what it was.
\<close>

theorem update_user_frame:
  assumes "update_user s b users = (users', r)" and "status r = 200"
  shows "length users' = length users
       \<and> (\<exists>i<length users.
             strict_eq (id_u (users ! i)) (parseInt s)
           \<and> data r = Some (users' ! i)
           \<and> id_u (users' ! i) = id_u (users ! i)
           \<and> (\<forall>j<length users. j \<noteq> i \<longrightarrow> users' ! j = users ! j))"
proof (cases "findIndex (\<lambda>u. strict_eq (id_u u) (parseInt s)) users")
  case None
  with assms show ?thesis
    by (auto simp add: update_user_def not_found_def)
next
  case (Some i)
  then have i: "i < length users" "strict_eq (id_u (users ! i)) (parseInt s)"
    by (simp_all add: findIndex_Some_iff)
  from Some assms(1) have u: "users' = users[i := update_fields b (users ! i)]"
    and d: "data r = Some (users' ! i)"
    by (auto simp add: update_user_def Let_def)
  have "id_u (update_fields b (users ! i)) = id_u (users ! i)"
    by (simp add: update_fields_def Let_def)
  with i u d show ?thesis by auto
qed

theorem update_user_frame_witness:
  "\<exists>users' r. update_user ''2'' \<lparr>body_name = JStr ''Jen'', body_email = JStr ''jen@x.org''\<rparr> users_seed = (users', r)
     \<and> status r = 200 \<and> length users' = 3
     \<and> users' ! 0 = users_seed ! 0 \<and> users' ! 2 = users_seed ! 2
     \<and> id_u (users' ! 1) = Num 2"
proof -
  obtain users' r where
    h: "update_user ''2'' \<lparr>body_name = JStr ''Jen'', body_email = JStr ''jen@x.org''\<rparr> users_seed = (users', r)"
    by (cases "update_user ''2'' \<lparr>body_name = JStr ''Jen'', body_email = JStr ''jen@x.org''\<rparr> users_seed")
  then have s: "status r = 200"
    by (auto simp add: update_user_def users_seed_def parseInt_2 Let_def)
  from update_user_frame [OF h s] obtain i where
    i: "i < length users_seed" "strict_eq (id_u (users_seed ! i)) (parseInt ''2'')"
      "id_u (users' ! i) = id_u (users_seed ! i)"
      "\<forall>j<length users_seed. j \<noteq> i \<longrightarrow> users' ! j = users_seed ! j"
    and l: "length users' = length users_seed"
    by blast
  from i(1,2) have "i = 1"
    by (auto simp add: users_seed_def parseInt_2 less_Suc_eq numeral_3_eq_3)
  with i l h s show ?thesis
    by (auto simp add: users_seed_def)
qed

section \<open>Deleting a user\<close>

text \<open>
  When the record at position \<open>i\<close> is the one DELETE /api/users/:id selects, exactly that
  position is removed, the records before and after keep their order, and the response
  carries the removed record.
\<close>

lemma delete_user_found:
  assumes "i < length users"
    and "strict_eq (id_u (users ! i)) (parseInt s)"
    and "\<forall>j<i. \<not> strict_eq (id_u (users ! j)) (parseInt s)"
  shows "delete_user s users =
           (take i users @ drop (Suc i) users,
            \<lparr>status = 200, success = True, message = Some ''User deleted successfully'',
             data = Some (users ! i)\<rparr>)"
    and "length (fst (delete_user s users)) + 1 = length users"
proof -
  have "findIndex (\<lambda>u. strict_eq (id_u u) (parseInt s)) users = Some i"
    using assms by (simp add: findIndex_Some_iff)
  then show "delete_user s users =
           (take i users @ drop (Suc i) users,
            \<lparr>status = 200, success = True, message = Some ''User deleted successfully'',
             data = Some (users ! i)\<rparr>)"
    by (simp add: delete_user_def splice1_def)
  then show "length (fst (delete_user s users)) + 1 = length users"
    using assms(1) by simp
qed

text \<open>
  While the ids of the collection are pairwise distinct, a GET for the deleted id right
  after the delete answers not-found.
\<close>

lemma get_after_delete_distinct:
  assumes "distinct (map id_u users)"
    and "i < length users"
    and "strict_eq (id_u (users ! i)) (parseInt s)"
  shows "get_user s (fst (delete_user s users)) = not_found"
proof -
  let ?P = "\<lambda>u. strict_eq (id_u u) (parseInt s)"
  have uniq: "j = i" if "j < length users" "?P (users ! j)" for j
  proof -
    from that(2) assms(3) have "id_u (users ! j) = id_u (users ! i)"
      by (rule strict_eq_same)
    with assms(1,2) that(1) show ?thesis
      using nth_eq_iff_index_eq [of "map id_u users" j i] by simp
  qed
  have first: "\<forall>j<i. \<not> ?P (users ! j)"
  proof (intro allI impI notI)
    fix j assume "j < i" "?P (users ! j)"
    with uniq [of j] assms(2) show False by simp
  qed
  have d: "fst (delete_user s users) = take i users @ drop (Suc i) users"
    using delete_user_found(1) [OF assms(2,3) first] by simp
  have "\<not> ?P x" if "x \<in> set (take i users @ drop (Suc i) users)" for x
  proof
    assume px: "?P x"
    from that consider "x \<in> set (take i users)" | "x \<in> set (drop (Suc i) users)" by auto
    then show False
    proof cases
      case 1
      then obtain j where "j < i" "x = users ! j"
        using assms(2) by (auto simp add: in_set_conv_nth)
      with px first show False by simp
    next
      case 2
      then obtain k where "k < length users - Suc i" "x = users ! (Suc i + k)"
        by (auto simp add: in_set_conv_nth)
      with px uniq [of "Suc i + k"] show False by (simp add: less_diff_conv)
    qed
  qed
  then have "findIndex ?P (take i users @ drop (Suc i) users) = None"
    by (simp only: findIndex_None_iff) blast
  then show ?thesis
    by (simp add: d get_user_def find_findIndex)
qed

text \<open>
  C4. DELETE /api/users/:id for an id in the collection removes one record, keeps the order
  of the others, returns the removed record, and a GET for that id right after it should
  answer not-found. On the collection reached from the seeds by DELETE /api/users/1 and one
  create, two records have id 3: DELETE /api/users/3 removes the first and returns it, and
  the GET for id 3 that follows answers 200 with the second.
\<close>

theorem get_after_delete_finds_duplicate:
  "delete_user ''3''
     (run [Delete ''1'', Post \<lparr>body_name = JStr ''Ann'', body_email = JStr ''ann@x.com''\<rparr>] users_seed) =
     ([\<lparr>id_u = Num 2, name = JStr ''Jane Smith'', email = JStr ''jane@example.com''\<rparr>,
       \<lparr>id_u = Num 3, name = JStr ''Ann'', email = JStr ''ann@x.com''\<rparr>],
      \<lparr>status = 200, success = True, message = Some ''User deleted successfully'',
       data = Some \<lparr>id_u = Num 3, name = JStr ''Bob Johnson'', email = JStr ''bob@example.com''\<rparr>\<rparr>)
   \<and> get_user ''3''
       (run [Delete ''1'', Post \<lparr>body_name = JStr ''Ann'', body_email = JStr ''ann@x.com''\<rparr>, Delete ''3'']
          users_seed) =
     \<lparr>status = 200, success = True, message = None,
      data = Some \<lparr>id_u = Num 3, name = JStr ''Ann'', email = JStr ''ann@x.com''\<rparr>\<rparr>"
  by (simp add: users_seed_def delete_user_def create_user_def get_user_def
      parseInt_1 parseInt_3 splice1_def Let_def)

section \<open>Ids assigned from the length of the collection\<close>

text \<open>
  C2. The ids of the seed records are pairwise distinct, and should stay so under every
  sequence of creates, updates and deletes. DELETE /api/users/1 followed by one create
  gives the ids 2, 3, 3: the create assigns the length plus one, which is taken.
\<close>

theorem ids_collide_after_delete_create:
  "distinct (map id_u users_seed)
   \<and> map id_u (run [Delete ''1'', Post \<lparr>body_name = JStr ''Ann'', body_email = JStr ''ann@x.com''\<rparr>] users_seed)
       = [Num 2, Num 3, Num 3]
   \<and> \<not> distinct (map id_u
         (run [Delete ''1'', Post \<lparr>body_name = JStr ''Ann'', body_email = JStr ''ann@x.com''\<rparr>] users_seed))"
  unfolding run_delete_create by (simp add: users_seed_def)

text \<open>
  C9. In a collection where a later record \<open>d\<close> has the same id as \<open>r\<close>, and \<open>r\<close> is the
  first record with the requested id, GET returns \<open>r\<close>, PUT rewrites \<open>r\<close> alone and DELETE
  removes \<open>r\<close> alone: \<open>d\<close> and every other record stay as they are, in their order.
\<close>

theorem first_duplicate_selected:
  assumes "\<forall>u\<in>set pre. \<not> strict_eq (id_u u) (parseInt s)"
    and "strict_eq (id_u r) (parseInt s)"
    and "id_u d = id_u r"
  shows "get_user s (pre @ r # mid @ d # post) =
           \<lparr>status = 200, success = True, message = None, data = Some r\<rparr>
       \<and> update_user s b (pre @ r # mid @ d # post) =
           (pre @ update_fields b r # mid @ d # post,
            \<lparr>status = 200, success = True, message = Some ''User updated successfully'',
             data = Some (update_fields b r)\<rparr>)
       \<and> delete_user s (pre @ r # mid @ d # post) =
           (pre @ mid @ d # post,
            \<lparr>status = 200, success = True, message = Some ''User deleted successfully'',
             data = Some r\<rparr>)"
proof -
  let ?P = "\<lambda>u. strict_eq (id_u u) (parseInt s)"
  let ?users = "pre @ r # mid @ d # post"
  have fi: "findIndex ?P ?users = Some (length pre)"
    using assms(1,2) by (rule findIndex_append)
  then have f: "find ?P ?users = Some r"
    by (simp add: find_findIndex)
  have g: "get_user s ?users = \<lparr>status = 200, success = True, message = None, data = Some r\<rparr>"
    using f by (simp add: get_user_def)
  have u: "update_user s b ?users =
           (pre @ update_fields b r # mid @ d # post,
            \<lparr>status = 200, success = True, message = Some ''User updated successfully'',
             data = Some (update_fields b r)\<rparr>)"
    using fi by (simp add: update_user_def Let_def)
  have dl: "delete_user s ?users =
           (pre @ mid @ d # post,
            \<lparr>status = 200, success = True, message = Some ''User deleted successfully'',
             data = Some r\<rparr>)"
    using fi by (simp add: delete_user_def splice1_def)
  from g u dl show ?thesis by simp
qed

theorem first_duplicate_selected_witness:
  "get_user ''3'' (run [Delete ''1'', Post \<lparr>body_name = JStr ''Ann'', body_email = JStr ''ann@x.com''\<rparr>] users_seed) =
     \<lparr>status = 200, success = True, message = None,
      data = Some \<lparr>id_u = Num 3, name = JStr ''Bob Johnson'', email = JStr ''bob@example.com''\<rparr>\<rparr>
   \<and> fst (update_user ''3'' \<lparr>body_name = JStr ''Rob'', body_email = JUndefined\<rparr>
          (run [Delete ''1'', Post \<lparr>body_name = JStr ''Ann'', body_email = JStr ''ann@x.com''\<rparr>] users_seed)) =
     [\<lparr>id_u = Num 2, name = JStr ''Jane Smith'', email = JStr ''jane@example.com''\<rparr>,
      \<lparr>id_u = Num 3, name = JStr ''Rob'', email = JStr ''bob@example.com''\<rparr>,
      \<lparr>id_u = Num 3, name = JStr ''Ann'', email = JStr ''ann@x.com''\<rparr>]
   \<and> fst (delete_user ''3''
          (run [Delete ''1'', Post \<lparr>body_name = JStr ''Ann'', body_email = JStr ''ann@x.com''\<rparr>] users_seed)) =
     [\<lparr>id_u = Num 2, name = JStr ''Jane Smith'', email = JStr ''jane@example.com''\<rparr>,
      \<lparr>id_u = Num 3, name = JStr ''Ann'', email = JStr ''ann@x.com''\<rparr>]"
proof -
  let ?jane = "\<lparr>id_u = Num 2, name = JStr ''Jane Smith'', email = JStr ''jane@example.com''\<rparr>"
  let ?bob = "\<lparr>id_u = Num 3, name = JStr ''Bob Johnson'', email = JStr ''bob@example.com''\<rparr>"
  let ?ann = "\<lparr>id_u = Num 3, name = JStr ''Ann'', email = JStr ''ann@x.com''\<rparr>"
  have p1: "\<forall>u\<in>set [?jane]. \<not> strict_eq (id_u u) (parseInt ''3'')"
    by (simp add: parseInt_3)
  have p2: "strict_eq (id_u ?bob) (parseInt ''3'')"
    by (simp add: parseInt_3)
  have p3: "id_u ?ann = id_u ?bob"
    by simp
  from first_duplicate_selected [OF p1 p2 p3, of "[]" "[]" "\<lparr>body_name = JStr ''Rob'', body_email = JUndefined\<rparr>"]
  show ?thesis
    unfolding run_delete_create by (simp add: update_fields_def)
qed

section \<open>Ids that do not parse\<close>

text \<open>
  C5, as amended. When \<open>parseInt\<close> finds no integer in the :id segment (after the leading
  white space and one optional sign the segment is over or goes on with a character that
  is not a decimal digit, or it goes on with \<open>0x\<close> or \<open>0X\<close> and no hexadecimal digit
  after it), the id parses to \<open>NaN\<close>, no record matches it, and GET /api/users/:id
  answers 404 with \<open>{success: false, message: "User not found"}\<close>. No other segment
  parses to \<open>NaN\<close>.
\<close>

theorem get_user_not_a_number:
  assumes "no_leading_integer s"
  shows "parseInt s = NaN
       \<and> (\<forall>u\<in>set users. \<not> strict_eq (id_u u) (parseInt s))
       \<and> get_user s users = not_found
       \<and> (\<forall>t. parseInt t = NaN \<longrightarrow> no_leading_integer t)"
proof -
  have n: "parseInt s = NaN"
    using assms by (simp add: parseInt_NaN_iff)
  have f: "find (\<lambda>u. strict_eq (id_u u) NaN) users = None"
    by (simp add: find_None_iff strict_eq_NaN)
  have m: "\<forall>u\<in>set users. \<not> strict_eq (id_u u) (parseInt s)"
    by (simp add: n strict_eq_NaN)
  have g: "get_user s users = not_found"
    by (simp add: get_user_def n f)
  have c: "\<forall>t. parseInt t = NaN \<longrightarrow> no_leading_integer t"
    by (simp add: parseInt_NaN_iff)
  from n m g c show ?thesis
    by blast
qed

theorem get_user_not_a_number_witness:
  "no_leading_integer ''abc'' \<and> parseInt ''abc'' = NaN \<and> get_user ''abc'' users_seed = not_found
   \<and> no_leading_integer ''0xg'' \<and> parseInt ''0xg'' = NaN \<and> get_user ''0xg'' users_seed = not_found
   \<and> no_leading_integer ''0x'' \<and> parseInt ''0x'' = NaN \<and> get_user ''0x'' users_seed = not_found
   \<and> no_leading_integer ''-0Xz'' \<and> parseInt ''-0Xz'' = NaN \<and> get_user ''-0Xz'' users_seed = not_found"
  using get_user_not_a_number [OF nli_abc, of users_seed]
    get_user_not_a_number [OF nli_0xg, of users_seed]
    get_user_not_a_number [OF nli_0x, of users_seed]
    get_user_not_a_number [OF nli_m0Xz, of users_seed]
    nli_abc nli_0xg nli_0x nli_m0Xz
  by simp

text \<open>
  C5 as stated covers every segment that is not a number. The segment \<open>2abc\<close> is not one
  (not all of its characters are digits), yet it parses to 2 and the GET on the seed
  collection answers 200 with the record of id 2.
\<close>

theorem get_user_non_numeric_counterexample:
  "\<not> list_all (is_radix_digit 10) ''2abc''
   \<and> parseInt ''2abc'' = Num 2
   \<and> get_user ''2abc'' users_seed =
       \<lparr>status = 200, success = True, message = None,
        data = Some \<lparr>id_u = Num 2, name = JStr ''Jane Smith'', email = JStr ''jane@example.com''\<rparr>\<rparr>"
  by code_simp

section \<open>Ids with digits followed by other characters\<close>




section \<open>Uploading a file of a type that is not allowed\<close>

text \<open>
  C7. A POST /api/upload whose file has a MIME type other than image/jpeg, image/png and
  image/gif answers 400 with the message of the filter, and the upload directory holds
  what it held before.
\<close>

theorem upload_rejects_type:
  assumes "mimetype file \<notin> set allowedTypes"
  shows "upload_image uploadsDir now (Some file) d =
           (d, \<lparr>up_status = 400, up_success = False,
                up_message = ''Invalid file type. Only JPEG, PNG, GIF are allowed.'',
                up_file = None\<rparr>)"
  using assms
  by (simp add: upload_image_def upload_single_def fileFilter_def upload_error_handler_def)

theorem upload_rejects_type_witness:
  "''text/plain'' \<notin> set allowedTypes
   \<and> upload_image ''/myapp/uploads'' ''1700000000000''
        (Some \<lparr>originalname = ''notes.txt'', mimetype = ''text/plain'', size_f = 12\<rparr>) Map.empty =
       (Map.empty, \<lparr>up_status = 400, up_success = False,
                up_message = ''Invalid file type. Only JPEG, PNG, GIF are allowed.'',
                up_file = None\<rparr>)"
proof -
  have h: "mimetype \<lparr>originalname = ''notes.txt'', mimetype = ''text/plain'', size_f = 12\<rparr> \<notin> set allowedTypes"
    by (simp add: allowedTypes_def)
  from upload_rejects_type [OF h, of "''/myapp/uploads''" "''1700000000000''" Map.empty] h
  show ?thesis by simp
qed

end
